theory Spec2Isabelle
  imports Main
begin

section \<open>JavaScript values\<close>

text \<open>
  The module is TypeScript; the values it reads from a session and hands back to its callers
  are JavaScript values.  Strings are byte lists (UTF-8), JSON numbers are kept as integers
  (the module never computes with them, it only tests \<open>typeof\<close> and truthiness).
\<close>

datatype jsval =
    JUndefined
  | JNull
  | JBool bool
  | JNum int
  | JStr string
  | JArr "jsval list"
  | JObj "(string \<times> jsval) list"

text \<open>\<open>!v\<close> is \<open>\<not> truthy v\<close> (ToBoolean).\<close>

fun truthy :: "jsval \<Rightarrow> bool" where
  "truthy JUndefined = False"
| "truthy JNull = False"
| "truthy (JBool b) = b"
| "truthy (JNum n) = (n \<noteq> 0)"
| "truthy (JStr s) = (s \<noteq> [])"
| "truthy (JArr _) = True"
| "truthy (JObj _) = True"

fun typeof :: "jsval \<Rightarrow> string" where
  "typeof JUndefined = ''undefined''"
| "typeof JNull = ''object''"
| "typeof (JBool _) = ''boolean''"
| "typeof (JNum _) = ''number''"
| "typeof (JStr _) = ''string''"
| "typeof (JArr _) = ''object''"
| "typeof (JObj _) = ''object''"

section \<open>HTTP messages, cookies and thrown values\<close>

type_synonym session_data = "(string \<times> jsval) list"

text \<open>
  The value of a cookie, symbolically: \<open>Sealed s d\<close> is the encoding of the session data
  \<open>d\<close> signed with the secret \<open>s\<close>, \<open>Plain d\<close> the same encoding without a signature,
  \<open>Blank\<close> the empty value and \<open>Junk t\<close> any other text.  Signatures are unforgeable:
  only the holder of \<open>s\<close> produces \<open>Sealed s d\<close>.
\<close>

datatype cookie_value =
    Blank
  | Plain session_data
  | Sealed string session_data
  | Junk string

text \<open>A parsed \<open>Cookie\<close> request header: the name/value pairs in the order sent.\<close>

type_synonym cookie_header = "(string \<times> cookie_value) list"

text \<open>
  A request, reduced to what the module reads of it: the path component of
  \<open>new URL(request.url)\<close> and \<open>request.headers.get("Cookie")\<close> (\<open>None\<close> for \<open>null\<close>,
  \<open>Some []\<close> for a header without a pair, such as the empty string).
\<close>

record request =
  pathname :: string
  Cookie :: "cookie_header option"

text \<open>A \<open>Set-Cookie\<close> response header: name, value and attributes (\<open>sc_expires\<close> in epoch ms).\<close>

record set_cookie =
  sc_name :: string
  sc_value :: cookie_value
  sc_maxAge :: "nat option"
  sc_expires :: "nat option"
  sc_path :: string
  sc_httpOnly :: bool
  sc_sameSite :: string
  sc_secure :: bool

record response =
  status :: nat
  Location :: string
  Set_Cookie :: "set_cookie option"

text \<open>
  What a \<open>throw\<close> carries: a response (the framework's redirect idiom), an \<open>Error\<close>, or a
  promise, which is settled either way.
\<close>

datatype thrown =
    ThrownResponse response
  | ThrownError string
  | ThrownPromise settled
and settled =
    Fulfils response
  | Rejects thrown

text \<open>The result of an \<open>async\<close> function once awaited: it returns or it throws.\<close>

datatype 'a outcome = Return 'a | Throw thrown

fun promise_of :: "response outcome \<Rightarrow> settled" where
  "promise_of (Return r) = Fulfils r"
| "promise_of (Throw t) = Rejects t"

text \<open>\<open>redirect(url, init)\<close>: status 302, the \<open>Location\<close> header, and the headers of \<open>init\<close>.\<close>

definition redirect :: "string \<Rightarrow> set_cookie option \<Rightarrow> response" where
  "redirect url init = \<lparr>status = 302, Location = url, Set_Cookie = init\<rparr>"

section \<open>URLSearchParams\<close>

text \<open>
  \<open>`${searchParams}`\<close> is the application/x-www-form-urlencoded serialisation: a byte is
  kept when it is an ASCII letter, a digit or one of \<open>* - . _\<close>, a space becomes \<open>+\<close>,
  every other byte becomes \<open>%\<close> and two upper-case hexadecimal digits.
\<close>

definition hex_digit :: "nat \<Rightarrow> char" where
  "hex_digit n = ''0123456789ABCDEF'' ! (n mod 16)"

definition urlencoded_safe :: "char \<Rightarrow> bool" where
  "urlencoded_safe c \<longleftrightarrow>
     c \<in> set ''abcdefghijklmnopqrstuvwxyzABCDEFGHIJKLMNOPQRSTUVWXYZ0123456789*-._''"

definition urlencoded_byte :: "char \<Rightarrow> string" where
  "urlencoded_byte c =
     (if c = CHR '' '' then ''+''
      else if urlencoded_safe c then [c]
      else [CHR ''%'', hex_digit (of_char c div 16), hex_digit (of_char c mod 16)])"

definition urlencoded_string :: "string \<Rightarrow> string" where
  "urlencoded_string s = concat (map urlencoded_byte s)"

fun URLSearchParams_toString :: "(string \<times> string) list \<Rightarrow> string" where
  "URLSearchParams_toString [] = []"
| "URLSearchParams_toString [(k, v)] = urlencoded_string k @ ''='' @ urlencoded_string v"
| "URLSearchParams_toString ((k, v) # kvs) =
     urlencoded_string k @ ''='' @ urlencoded_string v @ ''&'' @ URLSearchParams_toString kvs"

section \<open>The cookie session storage\<close>

text \<open>
  \<open>createCookieSessionStorage\<close> belongs to the web framework; the module calls its
  \<open>getSession\<close>, \<open>commitSession\<close> and \<open>destroySession\<close>, and \<open>get\<close> and \<open>set\<close> on a
  session.  They are modelled here after the framework's behaviour: a session is the
  key/value data of the cookie, the cookie value is that data signed with the first secret,
  a cookie that is missing, blank or not signed with one of the secrets gives an empty
  session, committing refuses a header longer than 4096 characters, and destroying issues
  a blank cookie whose \<open>Expires\<close> is the epoch, beside the \<open>Max-Age\<close> of the cookie's
  options, which the override leaves in place.

  The record holds the options of the session cookie.  \<open>wire_length\<close> is the length in
  characters of a serialised \<open>Set-Cookie\<close> header, which the symbolic cookie value leaves
  open.
\<close>

record cookie_options =
  name :: string
  secure :: bool
  secrets :: "string list"
  sameSite :: string
  path :: string
  maxAge :: nat
  httpOnly :: bool

record session_storage =
  cookie :: cookie_options
  wire_length :: "set_cookie \<Rightarrow> nat"

record env =
  SESSION_SECRET :: "string option"
  NODE_ENV :: "string option"

text \<open>
  Loading the module: \<open>sessionSecret\<close> is read from the environment, an unset or empty
  secret throws, otherwise \<open>storage\<close> is created with the cookie options of the source.
\<close>

definition storage :: "env \<Rightarrow> (set_cookie \<Rightarrow> nat) \<Rightarrow> session_storage outcome" where
  "storage e len =
     (case SESSION_SECRET e of
        None \<Rightarrow> Throw (ThrownError ''SESSION_SECRET must be set'')
      | Some sessionSecret \<Rightarrow>
          if sessionSecret = [] then Throw (ThrownError ''SESSION_SECRET must be set'')
          else Return \<lparr>cookie = \<lparr>name = ''RJ_session'',
                                  secure = (NODE_ENV e = Some ''production''),
                                  secrets = [sessionSecret],
                                  sameSite = ''lax'',
                                  path = ''/'',
                                  maxAge = 60 * 60 * 24 * 30,
                                  httpOnly = True\<rparr>,
                        wire_length = len\<rparr>)"

text \<open>Signing with the first secret; verifying against any of them.\<close>

definition encodeCookieValue :: "string list \<Rightarrow> session_data \<Rightarrow> cookie_value" where
  "encodeCookieValue ss d = (case ss of [] \<Rightarrow> Plain d | s # _ \<Rightarrow> Sealed s d)"

definition decodeCookieValue :: "string list \<Rightarrow> cookie_value \<Rightarrow> session_data option" where
  "decodeCookieValue ss v =
     (if ss \<noteq> [] then
        (case v of
           Sealed s d \<Rightarrow> if s \<in> set ss then Some d else None
         | _ \<Rightarrow> None)
      else
        (case v of
           Plain d \<Rightarrow> Some d
         | _ \<Rightarrow> Some []))"

text \<open>
  \<open>cookie.parse(header)\<close>: \<open>None\<close> stands for a result that is \<open>null\<close> or the empty
  string, both of which \<open>getSession\<close> replaces by an empty session.
\<close>

definition cookie_parse :: "cookie_options \<Rightarrow> cookie_header \<Rightarrow> session_data option" where
  "cookie_parse opts h =
     (case map_of h (name opts) of
        None \<Rightarrow> None
      | Some Blank \<Rightarrow> None
      | Some v \<Rightarrow> decodeCookieValue (secrets opts) v)"

text \<open>
  \<open>cookie.serialize(value, overrides)\<close>: the value is session data or the empty string
  (\<open>None\<close>); \<open>maxAge\<close> and \<open>expires\<close> are the attributes after the overrides.
\<close>

definition cookie_serialize ::
  "cookie_options \<Rightarrow> session_data option \<Rightarrow> nat option \<Rightarrow> nat option \<Rightarrow> set_cookie" where
  "cookie_serialize opts v age exp =
     \<lparr>sc_name = name opts,
      sc_value = (case v of None \<Rightarrow> Blank | Some d \<Rightarrow> encodeCookieValue (secrets opts) d),
      sc_maxAge = age,
      sc_expires = exp,
      sc_path = path opts,
      sc_httpOnly = httpOnly opts,
      sc_sameSite = sameSite opts,
      sc_secure = secure opts\<rparr>"

definition getSession :: "session_storage \<Rightarrow> cookie_header option \<Rightarrow> session_data" where
  "getSession st cookieHeader =
     (case cookieHeader of
        None \<Rightarrow> []
      | Some h \<Rightarrow> (case cookie_parse (cookie st) h of None \<Rightarrow> [] | Some d \<Rightarrow> d))"

definition commitSession :: "session_storage \<Rightarrow> session_data \<Rightarrow> set_cookie outcome" where
  "commitSession st session =
     (let serializedCookie =
            cookie_serialize (cookie st) (Some session) (Some (maxAge (cookie st))) None
      in if wire_length st serializedCookie > 4096
         then Throw (ThrownError ''Cookie length will exceed browser maximum'')
         else Return serializedCookie)"

definition destroySession :: "session_storage \<Rightarrow> session_data \<Rightarrow> set_cookie" where
  "destroySession st session =
     cookie_serialize (cookie st) None (Some (maxAge (cookie st))) (Some 0)"

text \<open>
  \<open>session.get(key)\<close> and \<open>session.set(key, value)\<close> on the session's data.  \<open>get\<close>
  answers with the entry of the key when there is one, otherwise with the flash entry of
  the key (and removes it from the session object, which the callers here never commit),
  otherwise with \<open>undefined\<close>.
\<close>

definition flash :: "string \<Rightarrow> string" where
  "flash k = ''__flash_'' @ k @ ''__''"

definition session_get :: "session_data \<Rightarrow> string \<Rightarrow> jsval" where
  "session_get session k =
     (case map_of session k of
        Some v \<Rightarrow> v
      | None \<Rightarrow> (case map_of session (flash k) of Some v \<Rightarrow> v | None \<Rightarrow> JUndefined))"

fun session_set :: "session_data \<Rightarrow> string \<Rightarrow> jsval \<Rightarrow> session_data" where
  "session_set [] k v = [(k, v)]"
| "session_set ((k', v') # kvs) k v =
     (if k' = k then (k, v) # kvs else (k', v') # session_set kvs k v)"

section \<open>The password hasher and the User store\<close>

text \<open>
  The hasher is a library: it is a parameter of the model, and what a property needs of it
  is stated there.  \<open>bcrypt.hash(password, rounds)\<close> draws a random salt, which is an
  argument here; \<open>bcrypt.compare(password, digest)\<close> answers with a boolean.
\<close>

record bcrypt =
  hash :: "string \<Rightarrow> nat \<Rightarrow> string \<Rightarrow> string"
  compare :: "string \<Rightarrow> string \<Rightarrow> bool"

record user =
  user_id :: string
  user_username :: string
  user_passwordHash :: string

type_synonym db = "user list"

text \<open>A row as the JavaScript object the client returns, and the \<open>select\<close> option.\<close>

definition user_object :: "user \<Rightarrow> (string \<times> jsval) list" where
  "user_object u =
     [(''id'', JStr (user_id u)),
      (''username'', JStr (user_username u)),
      (''passwordHash'', JStr (user_passwordHash u))]"

definition select :: "string list \<Rightarrow> user \<Rightarrow> jsval" where
  "select sel u = JObj (filter (\<lambda>(k, v). k \<in> set sel) (user_object u))"

text \<open>
  The store is the list of its rows, oldest first, and every query takes the store and
  hands it back with its answer.  Failures of the database connection are outside the
  model.

  \<open>db.user.create\<close>: the store generates the id (an argument here); \<open>id\<close> and
  \<open>username\<close> are unique (the module looks rows up with \<open>findUnique\<close> on either), and a
  row that would break that is refused with an error.
\<close>

definition db_user_create :: "string \<Rightarrow> string \<Rightarrow> string \<Rightarrow> db \<Rightarrow> user outcome \<times> db" where
  "db_user_create newId passwordHash username d =
     (if find (\<lambda>u. user_username u = username \<or> user_id u = newId) d \<noteq> None
      then (Throw (ThrownError ''Unique constraint failed''), d)
      else (let u = \<lparr>user_id = newId, user_username = username,
                     user_passwordHash = passwordHash\<rparr>
            in (Return u, d @ [u])))"

definition db_user_findUnique_username :: "string \<Rightarrow> db \<Rightarrow> user option \<times> db" where
  "db_user_findUnique_username username d = (find (\<lambda>u. user_username u = username) d, d)"

definition db_user_findUnique_id :: "string list \<Rightarrow> string \<Rightarrow> db \<Rightarrow> jsval option \<times> db" where
  "db_user_findUnique_id sel i d =
     (map_option (select sel) (find (\<lambda>u. user_id u = i) d), d)"

text \<open>The store's invariant: ids and usernames are unique.\<close>

definition db_ok :: "db \<Rightarrow> bool" where
  "db_ok d \<longleftrightarrow> distinct (map user_id d) \<and> distinct (map user_username d)"

section \<open>The module\<close>

record LoginForm =
  password :: string
  username :: string

definition register ::
  "bcrypt \<Rightarrow> string \<Rightarrow> string \<Rightarrow> LoginForm \<Rightarrow> db \<Rightarrow> jsval outcome \<times> db" where
  "register bc salt newId form d =
     (let passwordHash = hash bc (password form) 10 salt
      in case db_user_create newId passwordHash (username form) d of
           (Throw e, d') \<Rightarrow> (Throw e, d')
         | (Return u, d') \<Rightarrow>
             (Return (JObj [(''id'', JStr (user_id u)), (''username'', JStr (username form))]),
              d'))"

definition login :: "bcrypt \<Rightarrow> LoginForm \<Rightarrow> db \<Rightarrow> jsval outcome \<times> db" where
  "login bc form d =
     (case db_user_findUnique_username (username form) d of
        (None, d') \<Rightarrow> (Return JNull, d')
      | (Some u, d') \<Rightarrow>
          (let isCorrectPassword = compare bc (password form) (user_passwordHash u)
           in if \<not> isCorrectPassword then (Return JNull, d')
              else (Return (JObj [(''id'', JStr (user_id u)),
                                  (''username'', JStr (username form))]), d')))"

definition getUserSession :: "session_storage \<Rightarrow> request \<Rightarrow> session_data" where
  "getUserSession st req = getSession st (Cookie req)"

definition getUserId :: "session_storage \<Rightarrow> request \<Rightarrow> jsval outcome" where
  "getUserId st req =
     (let session = getUserSession st req;
          userId = session_get session ''userId''
      in if \<not> truthy userId \<or> typeof userId \<noteq> ''string'' then Return JNull
         else Return userId)"

text \<open>\<open>redirectTo\<close> is \<open>None\<close> when the caller leaves the argument out.\<close>

definition requiredUserId :: "session_storage \<Rightarrow> request \<Rightarrow> string option \<Rightarrow> jsval outcome" where
  "requiredUserId st req redirectToArg =
     (let redirectTo = (case redirectToArg of None \<Rightarrow> pathname req | Some r \<Rightarrow> r);
          session = getUserSession st req;
          userId = session_get session ''userId''
      in if \<not> truthy userId \<or> typeof userId \<noteq> ''string'' then
           (let searchParams = [(''redirectTo'', redirectTo)]
            in Throw (ThrownResponse
                 (redirect (''/login?'' @ URLSearchParams_toString searchParams) None)))
         else Return userId)"

definition createUserSession :: "session_storage \<Rightarrow> string \<Rightarrow> string \<Rightarrow> response outcome" where
  "createUserSession st userId redirectTo =
     (let session = getSession st None;
          session = session_set session ''userId'' (JStr userId)
      in case commitSession st session of
           Throw e \<Rightarrow> Throw e
         | Return c \<Rightarrow> Return (redirect redirectTo (Some c)))"

definition logout :: "session_storage \<Rightarrow> request \<Rightarrow> response outcome" where
  "logout st req =
     (let session = getUserSession st req
      in Return (redirect ''/login'' (Some (destroySession st session))))"

text \<open>
  In \<open>getUser\<close>, the pattern \<open>JStr userId\<close> is the test \<open>typeof userId !== "string"\<close>
  failing.  \<open>getUser\<close> throws \<open>logout(request)\<close> itself, the promise, without awaiting
  it.
\<close>

definition getUser :: "session_storage \<Rightarrow> request \<Rightarrow> db \<Rightarrow> jsval outcome \<times> db" where
  "getUser st req d =
     (case getUserId st req of
        Throw e \<Rightarrow> (Throw e, d)
      | Return (JStr userId) \<Rightarrow>
          (case db_user_findUnique_id [''id'', ''username''] userId d of
             (None, d') \<Rightarrow> (Throw (ThrownPromise (promise_of (logout st req))), d')
           | (Some u, d') \<Rightarrow> (Return u, d'))
      | Return _ \<Rightarrow> (Return JNull, d))"

section \<open>The exported interface\<close>

text \<open>
  One call of an exported function, run on the User store: the reply is a JavaScript value
  or a response, and the store after the call comes back with it.  Functions that never
  touch the store hand it back as it was given.
\<close>

datatype call =
    Register string string LoginForm
  | Login LoginForm
  | GetUserId request
  | RequiredUserId request "string option"
  | CreateUserSession string string
  | GetUser request
  | Logout request

datatype reply = Value jsval | Reply response

fun exec :: "bcrypt \<Rightarrow> session_storage \<Rightarrow> call \<Rightarrow> db \<Rightarrow> reply outcome \<times> db" where
  "exec bc st (Register salt newId form) d =
     (case register bc salt newId form d of (r, d') \<Rightarrow> (map_outcome Value r, d'))"
| "exec bc st (Login form) d =
     (case login bc form d of (r, d') \<Rightarrow> (map_outcome Value r, d'))"
| "exec bc st (GetUserId req) d = (map_outcome Value (getUserId st req), d)"
| "exec bc st (RequiredUserId req redirectTo) d =
     (map_outcome Value (requiredUserId st req redirectTo), d)"
| "exec bc st (CreateUserSession userId redirectTo) d =
     (map_outcome Reply (createUserSession st userId redirectTo), d)"
| "exec bc st (GetUser req) d =
     (case getUser st req d of (r, d') \<Rightarrow> (map_outcome Value r, d'))"
| "exec bc st (Logout req) d = (map_outcome Reply (logout st req), d)"

section \<open>Observations used by the properties\<close>

text \<open>The store with every stored digest replaced.\<close>

definition rehash :: "(user \<Rightarrow> string) \<Rightarrow> db \<Rightarrow> db" where
  "rehash f d = map (\<lambda>u. u\<lparr>user_passwordHash := f u\<rparr>) d"

section \<open>Sample data\<close>

text \<open>
  A loaded module (secret \<open>s3cr3t\<close>, development mode, short headers), a toy hasher that
  verifies its own digests, a store with one user and a few requests.
\<close>

definition sample_storage :: session_storage where
  "sample_storage =
     \<lparr>cookie = \<lparr>name = ''RJ_session'', secure = False, secrets = [''s3cr3t''],
                 sameSite = ''lax'', path = ''/'', maxAge = 2592000, httpOnly = True\<rparr>,
      wire_length = (\<lambda>c. 120)\<rparr>"

definition sample_bcrypt :: bcrypt where
  "sample_bcrypt =
     \<lparr>hash = (\<lambda>pw rounds salt. salt @ ''$'' @ pw),
      compare = (\<lambda>pw digest. drop (length digest - length pw) digest = pw)\<rparr>"

definition alice :: user where
  "alice = \<lparr>user_id = ''u1'', user_username = ''alice'', user_passwordHash = ''NaCl$wonderland''\<rparr>"

definition sample_request :: "string \<Rightarrow> jsval \<Rightarrow> request" where
  "sample_request p v =
     \<lparr>pathname = p, Cookie = Some [(''RJ_session'', Sealed ''s3cr3t'' [(''userId'', v)])]\<rparr>"

definition anonymous_request :: "string \<Rightarrow> request" where
  "anonymous_request p = \<lparr>pathname = p, Cookie = None\<rparr>"

section \<open>Auxiliary facts\<close>

lemma find_append_None: "find P xs = None \<Longrightarrow> find P (xs @ ys) = find P ys"
  by (induction xs) (auto split: if_splits)

lemma find_unique_key:
  assumes "distinct (map f xs)" "x \<in> set xs"
  shows "find (\<lambda>y. f y = f x) xs = Some x"
  using assms
proof (induction xs)
  case Nil
  then show ?case by simp
next
  case (Cons a xs)
  then show ?case by (cases "a = x") (auto simp: image_iff)
qed

lemma find_Some_mem: "find P xs = Some x \<Longrightarrow> x \<in> set xs"
  by (induction xs) (auto split: if_splits)

lemma find_rehash:
  assumes "\<And>u h. P (u\<lparr>user_passwordHash := h\<rparr>) = P u"
  shows "find P (rehash f d) = map_option (\<lambda>u. u\<lparr>user_passwordHash := f u\<rparr>) (find P d)"
  unfolding rehash_def using assms by (induction d) auto

lemma select_rehash:
  "''passwordHash'' \<notin> set sel \<Longrightarrow> select sel (u\<lparr>user_passwordHash := h\<rparr>) = select sel u"
  by (simp add: select_def user_object_def)

lemma select_identity:
  "select [''id'', ''username''] u =
     JObj [(''id'', JStr (user_id u)), (''username'', JStr (user_username u))]"
  by (simp add: select_def user_object_def)

text \<open>Registration keeps ids and usernames unique.\<close>

lemma register_db_ok: "db_ok d \<Longrightarrow> db_ok (snd (register bc salt newId form d))"
  by (auto simp: register_def db_user_create_def db_ok_def Let_def find_None_iff
      split: if_splits)

text \<open>What \<open>getUserSession\<close> reads from a request.\<close>

lemma getUserSession_no_cookie: "Cookie req = None \<Longrightarrow> getUserSession st req = []"
  by (simp add: getUserSession_def getSession_def)

lemma getUserSession_cookie_missing:
  "Cookie req = Some h \<Longrightarrow> map_of h (name (cookie st)) = None \<Longrightarrow> getUserSession st req = []"
  by (simp add: getUserSession_def getSession_def cookie_parse_def)

lemma getUserSession_blank:
  "Cookie req = Some h \<Longrightarrow> map_of h (name (cookie st)) = Some Blank \<Longrightarrow>
     getUserSession st req = []"
  by (simp add: getUserSession_def getSession_def cookie_parse_def)

lemma getUserSession_committed:
  assumes "Cookie req = Some h"
      and "map_of h (name (cookie st)) = Some (encodeCookieValue (secrets (cookie st)) data)"
  shows "getUserSession st req = data"
  using assms
  by (cases "secrets (cookie st)")
     (simp_all add: getUserSession_def getSession_def cookie_parse_def
        encodeCookieValue_def decodeCookieValue_def)

text \<open>\<open>getUserId\<close> answers \<open>null\<close> or the non-empty string stored in the session.\<close>

lemma getUserId_cases:
  "getUserId st req = Return JNull \<or>
   (\<exists>uid. uid \<noteq> [] \<and> getUserId st req = Return (JStr uid)
      \<and> session_get (getUserSession st req) ''userId'' = JStr uid)"
  by (cases "session_get (getUserSession st req) ''userId''")
     (auto simp: getUserId_def Let_def)

lemma getUserId_string:
  "uid \<noteq> [] \<Longrightarrow> session_get (getUserSession st req) ''userId'' = JStr uid \<Longrightarrow>
     getUserId st req = Return (JStr uid)"
  by (simp add: getUserId_def Let_def)

text \<open>Evaluation of the sample data.\<close>

lemma sample_session [simp]:
  "getUserSession sample_storage (sample_request p v) = [(''userId'', v)]"
  by (simp add: sample_storage_def sample_request_def getUserSession_def getSession_def
      cookie_parse_def decodeCookieValue_def)

lemma anonymous_session [simp]: "getUserSession sample_storage (anonymous_request p) = []"
  by (simp add: anonymous_request_def getUserSession_def getSession_def)

lemma sample_storage_loaded:
  "storage \<lparr>SESSION_SECRET = Some ''s3cr3t'', NODE_ENV = None\<rparr> (\<lambda>c. 120) =
     Return sample_storage"
  by (simp add: storage_def sample_storage_def)

lemma storage_without_secret:
  "SESSION_SECRET e = None \<or> SESSION_SECRET e = Some [] \<Longrightarrow>
     storage e len = Throw (ThrownError ''SESSION_SECRET must be set'')"
  by (auto simp: storage_def)

text \<open>The serialisation leaves only safe bytes, \<open>%\<close> and \<open>+\<close>.\<close>

lemma hex_digit_safe: "urlencoded_safe (hex_digit n)"
proof -
  have "hex_digit n \<in> set ''0123456789ABCDEF''"
    unfolding hex_digit_def by (rule nth_mem) simp
  then show ?thesis
    unfolding urlencoded_safe_def by (elim set_ConsD[elim_format] disjE) simp_all
qed

lemma urlencoded_string_chars:
  "c \<in> set (urlencoded_string s) \<Longrightarrow> urlencoded_safe c \<or> c = CHR ''%'' \<or> c = CHR ''+''"
  by (auto simp: urlencoded_string_def urlencoded_byte_def hex_digit_safe split: if_splits)

section \<open>Stale sessions\<close>

text \<open>
  What \<open>getUser\<close> does for a session whose non-empty string \<open>userId\<close> is the id of no
  User record: it throws the promise of \<open>logout(request)\<close>, and leaves the store as it
  was.  The promise would fulfil with the logout redirect, but the value thrown is the
  promise, where \<open>requiredUserId\<close> throws a response.
\<close>

lemma getUser_stale_session:
  assumes "session_get (getUserSession st req) ''userId'' = JStr uid" and "uid \<noteq> []"
      and "\<forall>u\<in>set d. user_id u \<noteq> uid"
  shows "getUser st req d =
           (Throw (ThrownPromise (Fulfils
              \<lparr>status = 302, Location = ''/login'',
               Set_Cookie = Some (destroySession st (getUserSession st req))\<rparr>)), d)"
proof -
  have g: "getUserId st req = Return (JStr uid)"
    using assms(1,2) by (rule getUserId_string[rotated])
  have f: "find (\<lambda>u. user_id u = uid) d = None"
    using assms(3) by (simp add: find_None_iff)
  show ?thesis
    by (simp add: getUser_def g db_user_findUnique_id_def f logout_def redirect_def Let_def)
qed

text \<open>No call of \<open>getUser\<close> throws a response.\<close>

lemma getUser_never_throws_response: "fst (getUser st req d) \<noteq> Throw (ThrownResponse r)"
  using getUserId_cases [of st req]
  by (auto simp: getUser_def db_user_findUnique_id_def logout_def Let_def
      split: option.splits)

text \<open>
  C1.  The claim asks that \<open>getUser\<close>, for a session whose \<open>userId\<close> matches no User
  record, results in the logout redirect.  At the request below (a signed session with
  \<open>userId\<close> \<open>ghost\<close>, a store that holds only \<open>alice\<close>) \<open>getUser\<close> throws, and what it
  throws is not a redirect response but the promise of one: \<open>logout(request)\<close> is thrown
  without being awaited.
\<close>

theorem getUser_stale_session_throws_promise:
  "getUser sample_storage (sample_request ''/jokes'' (JStr ''ghost'')) [alice] =
     (Throw (ThrownPromise (Fulfils
        \<lparr>status = 302, Location = ''/login'',
         Set_Cookie = Some \<lparr>sc_name = ''RJ_session'', sc_value = Blank,
                            sc_maxAge = Some 2592000, sc_expires = Some 0, sc_path = ''/'',
                            sc_httpOnly = True, sc_sameSite = ''lax'',
                            sc_secure = False\<rparr>\<rparr>)),
      [alice])"
  by (simp add: getUser_def getUserId_def session_get_def Let_def db_user_findUnique_id_def
      logout_def redirect_def destroySession_def cookie_serialize_def)
     (simp add: sample_storage_def alice_def)

section \<open>Registration and login\<close>

text \<open>
  C2.  Given that the hasher verifies the digest it has just produced for this password,
  when \<open>register\<close> succeeds and returns a record, that record is \<open>{id, username}\<close> with
  the id of the inserted row, and \<open>login\<close> with the same form on the store left by
  \<open>register\<close> returns the same record.
\<close>

theorem login_after_register:
  assumes "compare bc (password form) (hash bc (password form) 10 salt)"
      and "register bc salt newId form d = (Return r, d')"
  shows "r = JObj [(''id'', JStr newId), (''username'', JStr (username form))]
         \<and> login bc form d' = (Return r, d')"
proof -
  let ?h = "hash bc (password form) 10 salt"
  let ?u = "\<lparr>user_id = newId, user_username = username form, user_passwordHash = ?h\<rparr>"
  from assms(2)
  have fresh: "find (\<lambda>u. user_username u = username form \<or> user_id u = newId) d = None"
    and d': "d' = d @ [?u]"
    and r: "r = JObj [(''id'', JStr newId), (''username'', JStr (username form))]"
    by (auto simp: register_def db_user_create_def Let_def split: if_splits)
  from fresh have "find (\<lambda>u. user_username u = username form) d = None"
    by (auto simp: find_None_iff)
  then have "find (\<lambda>u. user_username u = username form) d' = Some ?u"
    by (simp add: d' find_append_None)
  then have "login bc form d' = (Return r, d')"
    using assms(1) by (simp add: login_def db_user_findUnique_username_def r)
  with r show ?thesis by simp
qed

theorem login_after_register_witness:
  "compare sample_bcrypt ''pw'' (hash sample_bcrypt ''pw'' 10 ''NaCl'')
   \<and> register sample_bcrypt ''NaCl'' ''u2'' \<lparr>password = ''pw'', username = ''bob''\<rparr> [alice] =
       (Return (JObj [(''id'', JStr ''u2''), (''username'', JStr ''bob'')]),
        [alice, \<lparr>user_id = ''u2'', user_username = ''bob'', user_passwordHash = ''NaCl$pw''\<rparr>])
   \<and> login sample_bcrypt \<lparr>password = ''pw'', username = ''bob''\<rparr>
        [alice, \<lparr>user_id = ''u2'', user_username = ''bob'', user_passwordHash = ''NaCl$pw''\<rparr>] =
       (Return (JObj [(''id'', JStr ''u2''), (''username'', JStr ''bob'')]),
        [alice, \<lparr>user_id = ''u2'', user_username = ''bob'', user_passwordHash = ''NaCl$pw''\<rparr>])"
proof -
  let ?form = "\<lparr>password = ''pw'', username = ''bob''\<rparr>"
  have h1: "compare sample_bcrypt (password ?form) (hash sample_bcrypt (password ?form) 10 ''NaCl'')"
    by (simp add: sample_bcrypt_def)
  have h2: "register sample_bcrypt ''NaCl'' ''u2'' ?form [alice] =
       (Return (JObj [(''id'', JStr ''u2''), (''username'', JStr ''bob'')]),
        [alice, \<lparr>user_id = ''u2'', user_username = ''bob'', user_passwordHash = ''NaCl$pw''\<rparr>])"
    by (simp add: register_def db_user_create_def Let_def sample_bcrypt_def alice_def)
  from login_after_register [OF h1 h2] h1 h2 show ?thesis by simp
qed

text \<open>
  C3.  On a store with unique usernames, \<open>login\<close> returns \<open>null\<close> when no User has the
  username of the form; for the User that has it, \<open>login\<close> returns \<open>null\<close> when the
  password does not verify against the stored digest and \<open>{id, username}\<close> with that
  user's id when it does.  It always returns, and leaves the store as it was.
\<close>

theorem login_null_or_identity:
  assumes "db_ok d"
  shows "((\<forall>u\<in>set d. user_username u \<noteq> username form) \<longrightarrow>
            login bc form d = (Return JNull, d))
       \<and> (\<forall>u\<in>set d. user_username u = username form \<longrightarrow>
            login bc form d =
              (if compare bc (password form) (user_passwordHash u)
               then (Return (JObj [(''id'', JStr (user_id u)),
                                   (''username'', JStr (username form))]), d)
               else (Return JNull, d)))"
proof (intro conjI impI ballI)
  assume "\<forall>u\<in>set d. user_username u \<noteq> username form"
  then have "find (\<lambda>u. user_username u = username form) d = None"
    by (simp add: find_None_iff)
  then show "login bc form d = (Return JNull, d)"
    by (simp add: login_def db_user_findUnique_username_def)
next
  fix u assume u: "u \<in> set d" "user_username u = username form"
  from assms have "distinct (map user_username d)" by (simp add: db_ok_def)
  from find_unique_key [OF this u(1)] u(2)
  have "find (\<lambda>y. user_username y = username form) d = Some u" by simp
  then show "login bc form d =
               (if compare bc (password form) (user_passwordHash u)
                then (Return (JObj [(''id'', JStr (user_id u)),
                                    (''username'', JStr (username form))]), d)
                else (Return JNull, d))"
    by (simp add: login_def db_user_findUnique_username_def)
qed

theorem login_null_or_identity_witness:
  "db_ok [alice]
   \<and> ''nonexistent'' \<notin> set (map user_username [alice])
   \<and> login sample_bcrypt \<lparr>password = ''wonderland'', username = ''nonexistent''\<rparr> [alice] =
       (Return JNull, [alice])
   \<and> alice \<in> set [alice] \<and> user_username alice = ''alice''
   \<and> \<not> compare sample_bcrypt ''wrong'' (user_passwordHash alice)
   \<and> login sample_bcrypt \<lparr>password = ''wrong'', username = ''alice''\<rparr> [alice] =
       (Return JNull, [alice])
   \<and> compare sample_bcrypt ''wonderland'' (user_passwordHash alice)
   \<and> login sample_bcrypt \<lparr>password = ''wonderland'', username = ''alice''\<rparr> [alice] =
       (Return (JObj [(''id'', JStr ''u1''), (''username'', JStr ''alice'')]), [alice])"
proof -
  have ok: "db_ok [alice]" by (simp add: db_ok_def)
  have none: "\<forall>u\<in>set [alice]. user_username u \<noteq> ''nonexistent''" by (simp add: alice_def)
  have mem: "alice \<in> set [alice]" "user_username alice = ''alice''" by (simp_all add: alice_def)
  have bad: "\<not> compare sample_bcrypt ''wrong'' (user_passwordHash alice)"
    and good: "compare sample_bcrypt ''wonderland'' (user_passwordHash alice)"
    by (simp_all add: sample_bcrypt_def alice_def)
  note t = login_null_or_identity [OF ok, of _ sample_bcrypt]
  from t [of "\<lparr>password = ''wonderland'', username = ''nonexistent''\<rparr>"] none
  have r1: "login sample_bcrypt \<lparr>password = ''wonderland'', username = ''nonexistent''\<rparr> [alice] =
       (Return JNull, [alice])" by simp
  from t [of "\<lparr>password = ''wrong'', username = ''alice''\<rparr>"] mem bad
  have r2: "login sample_bcrypt \<lparr>password = ''wrong'', username = ''alice''\<rparr> [alice] =
       (Return JNull, [alice])" by simp
  from t [of "\<lparr>password = ''wonderland'', username = ''alice''\<rparr>"] mem good
  have r3: "login sample_bcrypt \<lparr>password = ''wonderland'', username = ''alice''\<rparr> [alice] =
       (Return (JObj [(''id'', JStr ''u1''), (''username'', JStr ''alice'')]), [alice])"
    by (simp add: alice_def)
  have none': "''nonexistent'' \<notin> set (map user_username [alice])" by (simp add: alice_def)
  from ok none' mem bad good r1 r2 r3 show ?thesis by simp
qed

section \<open>Reading the session\<close>



text \<open>
  A flash entry counts as the value: a session that holds only the flash entry of
  \<open>userId\<close> yields that entry.
\<close>

lemma getUserId_flash_entry:
  "getUserId sample_storage
     \<lparr>pathname = ''/jokes'',
      Cookie = Some [(''RJ_session'', Sealed ''s3cr3t'' [(''__flash_userId__'', JStr ''u9'')])]\<rparr>
   = Return (JStr ''u9'')"
  by (simp add: getUserId_def getUserSession_def getSession_def cookie_parse_def
      decodeCookieValue_def session_get_def flash_def sample_storage_def Let_def)

text \<open>
  C10.  A session whose \<open>userId\<close> is the empty string is treated as one without a
  \<open>userId\<close>: \<open>getUserId\<close> returns \<open>null\<close> and \<open>requiredUserId\<close> throws the login
  redirect.  Neither function ever returns the empty string.
\<close>

theorem empty_userId_is_absent:
  "(session_get (getUserSession st req) ''userId'' = JStr [] \<longrightarrow>
      getUserId st req = Return JNull
      \<and> requiredUserId st req redirectToArg =
          Throw (ThrownResponse
            \<lparr>status = 302,
             Location = ''/login?redirectTo='' @
               urlencoded_string (case redirectToArg of None \<Rightarrow> pathname req | Some r \<Rightarrow> r),
             Set_Cookie = None\<rparr>))
   \<and> getUserId st req \<noteq> Return (JStr [])
   \<and> requiredUserId st req redirectToArg \<noteq> Return (JStr [])"
  by (cases "session_get (getUserSession st req) ''userId''")
     (auto simp: getUserId_def requiredUserId_def Let_def redirect_def urlencoded_string_def
        urlencoded_byte_def urlencoded_safe_def)

theorem empty_userId_is_absent_witness:
  "session_get (getUserSession sample_storage (sample_request ''/jokes'' (JStr ''''))) ''userId''
     = JStr ''''
   \<and> getUserId sample_storage (sample_request ''/jokes'' (JStr '''')) = Return JNull
   \<and> requiredUserId sample_storage (sample_request ''/jokes'' (JStr '''')) None =
       Throw (ThrownResponse
         \<lparr>status = 302, Location = ''/login?redirectTo=%2Fjokes'', Set_Cookie = None\<rparr>)"
proof -
  have h: "session_get (getUserSession sample_storage (sample_request ''/jokes'' (JStr '''')))
             ''userId'' = JStr ''''"
    by (simp add: session_get_def)
  have e: "urlencoded_string ''/jokes'' = ''%2Fjokes''"
    by (simp add: urlencoded_string_def urlencoded_byte_def urlencoded_safe_def hex_digit_def)
  have p: "pathname (sample_request ''/jokes'' (JStr '''')) = ''/jokes''"
    by (simp add: sample_request_def)
  from empty_userId_is_absent [of sample_storage "sample_request ''/jokes'' (JStr '''')" None] h
  show ?thesis by (simp add: e p)
qed

section \<open>Access control\<close>

text \<open>
  C4.  When the request has no \<open>Cookie\<close> header, or its header has no session cookie, or the
  session's \<open>userId\<close> is falsy or not a string, \<open>requiredUserId\<close> does not return: it
  throws a redirect response (status 302) whose location is \<open>/login?redirectTo=\<close> followed
  by the form-urlencoded \<open>redirectTo\<close>, which is the request's path when the argument is
  left out.  When the session's \<open>userId\<close> is a non-empty string, \<open>requiredUserId\<close>
  returns that string.
\<close>

theorem requiredUserId_redirect_or_userId:
  "((Cookie req = None
       \<or> (\<exists>h. Cookie req = Some h \<and> map_of h (name (cookie st)) = None)
       \<or> \<not> truthy (session_get (getUserSession st req) ''userId'')
       \<or> typeof (session_get (getUserSession st req) ''userId'') \<noteq> ''string'') \<longrightarrow>
      requiredUserId st req redirectToArg =
        Throw (ThrownResponse
          \<lparr>status = 302,
           Location = ''/login?redirectTo='' @
             urlencoded_string (case redirectToArg of None \<Rightarrow> pathname req | Some r \<Rightarrow> r),
           Set_Cookie = None\<rparr>))
   \<and> (\<forall>uid. uid \<noteq> [] \<and> session_get (getUserSession st req) ''userId'' = JStr uid \<longrightarrow>
        requiredUserId st req redirectToArg = Return (JStr uid))"
proof (intro conjI impI allI)
  assume a: "Cookie req = None
       \<or> (\<exists>h. Cookie req = Some h \<and> map_of h (name (cookie st)) = None)
       \<or> \<not> truthy (session_get (getUserSession st req) ''userId'')
       \<or> typeof (session_get (getUserSession st req) ''userId'') \<noteq> ''string''"
  have "\<not> truthy (session_get (getUserSession st req) ''userId'')
            \<or> typeof (session_get (getUserSession st req) ''userId'') \<noteq> ''string''"
    using a
    by (auto simp: getUserSession_no_cookie getUserSession_cookie_missing session_get_def)
  then show "requiredUserId st req redirectToArg =
            Throw (ThrownResponse
              \<lparr>status = 302,
               Location = ''/login?redirectTo='' @
                 urlencoded_string (case redirectToArg of None \<Rightarrow> pathname req | Some r \<Rightarrow> r),
               Set_Cookie = None\<rparr>)"
    by (auto simp: requiredUserId_def Let_def redirect_def urlencoded_string_def
        urlencoded_byte_def urlencoded_safe_def)
next
  fix uid assume "uid \<noteq> [] \<and> session_get (getUserSession st req) ''userId'' = JStr uid"
  then show "requiredUserId st req redirectToArg = Return (JStr uid)"
    by (simp add: requiredUserId_def Let_def)
qed

theorem requiredUserId_redirect_or_userId_witness:
  "Cookie (anonymous_request ''/jokes/new'') = None
   \<and> requiredUserId sample_storage (anonymous_request ''/jokes/new'') None =
       Throw (ThrownResponse
         \<lparr>status = 302, Location = ''/login?redirectTo=%2Fjokes%2Fnew'',
          Set_Cookie = None\<rparr>)
   \<and> ''u1'' \<noteq> []
   \<and> session_get (getUserSession sample_storage (sample_request ''/jokes'' (JStr ''u1'')))
        ''userId'' = JStr ''u1''
   \<and> requiredUserId sample_storage (sample_request ''/jokes'' (JStr ''u1'')) (Some ''/mine'') =
       Return (JStr ''u1'')"
proof -
  have h1: "Cookie (anonymous_request ''/jokes/new'') = None"
    by (simp add: anonymous_request_def)
  have p: "pathname (anonymous_request ''/jokes/new'') = ''/jokes/new''"
    by (simp add: anonymous_request_def)
  have e: "urlencoded_string ''/jokes/new'' = ''%2Fjokes%2Fnew''"
    by (simp add: urlencoded_string_def urlencoded_byte_def urlencoded_safe_def hex_digit_def)
  have h2: "session_get (getUserSession sample_storage (sample_request ''/jokes'' (JStr ''u1'')))
        ''userId'' = JStr ''u1''"
    by (simp add: session_get_def)
  from requiredUserId_redirect_or_userId
         [of "anonymous_request ''/jokes/new''" sample_storage None] h1
  have r1: "requiredUserId sample_storage (anonymous_request ''/jokes/new'') None =
       Throw (ThrownResponse
         \<lparr>status = 302, Location = ''/login?redirectTo=%2Fjokes%2Fnew'',
          Set_Cookie = None\<rparr>)"
    by (simp add: p e)
  from requiredUserId_redirect_or_userId
         [of "sample_request ''/jokes'' (JStr ''u1'')" sample_storage "Some ''/mine''"] h2
  have r2: "requiredUserId sample_storage (sample_request ''/jokes'' (JStr ''u1''))
              (Some ''/mine'') = Return (JStr ''u1'')"
    by simp
  from h1 h2 r1 r2 show ?thesis by simp
qed

section \<open>Session round trips\<close>

lemma createUserSession_cookie:
  assumes "createUserSession st userId redirectTo = Return resp"
  shows "resp = redirect redirectTo
           (Some (cookie_serialize (cookie st) (Some [(''userId'', JStr userId)])
                    (Some (maxAge (cookie st))) None))"
  using assms
  by (auto simp: createUserSession_def commitSession_def getSession_def Let_def
      split: if_splits)

text \<open>
  C5 (as amended).  For every non-empty \<open>userId\<close> and every \<open>redirectTo\<close>, when
  \<open>createUserSession\<close> returns its response, that response redirects to \<open>redirectTo\<close>
  and any request whose \<open>Cookie\<close> header carries the cookie of the response's
  \<open>Set-Cookie\<close> header makes \<open>getUserId\<close> return \<open>userId\<close>.
\<close>

theorem session_round_trip:
  assumes "userId \<noteq> []"
      and "createUserSession st userId redirectTo = Return resp"
      and "Set_Cookie resp = Some c"
      and "Cookie req = Some h"
      and "map_of h (sc_name c) = Some (sc_value c)"
  shows "getUserId st req = Return (JStr userId) \<and> Location resp = redirectTo"
proof -
  from createUserSession_cookie [OF assms(2)] assms(3)
  have c: "c = cookie_serialize (cookie st) (Some [(''userId'', JStr userId)])
                    (Some (maxAge (cookie st))) None"
    and l: "Location resp = redirectTo"
    by (simp_all add: redirect_def)
  from c have "map_of h (name (cookie st)) =
      Some (encodeCookieValue (secrets (cookie st)) [(''userId'', JStr userId)])"
    using assms(5) by (simp add: cookie_serialize_def)
  from getUserSession_committed [OF assms(4) this]
  have "session_get (getUserSession st req) ''userId'' = JStr userId"
    by (simp add: session_get_def)
  with assms(1) l show ?thesis by (simp add: getUserId_string)
qed

theorem session_round_trip_witness:
  "''u1'' \<noteq> []
   \<and> createUserSession sample_storage ''u1'' ''/dashboard'' =
       Return \<lparr>status = 302, Location = ''/dashboard'',
               Set_Cookie = Some \<lparr>sc_name = ''RJ_session'',
                                  sc_value = Sealed ''s3cr3t'' [(''userId'', JStr ''u1'')],
                                  sc_maxAge = Some 2592000, sc_expires = None, sc_path = ''/'',
                                  sc_httpOnly = True, sc_sameSite = ''lax'',
                                  sc_secure = False\<rparr>\<rparr>
   \<and> Cookie (sample_request ''/jokes'' (JStr ''u1'')) =
       Some [(''RJ_session'', Sealed ''s3cr3t'' [(''userId'', JStr ''u1'')])]
   \<and> getUserId sample_storage (sample_request ''/jokes'' (JStr ''u1'')) = Return (JStr ''u1'')"
proof -
  let ?c = "\<lparr>sc_name = ''RJ_session'',
             sc_value = Sealed ''s3cr3t'' [(''userId'', JStr ''u1'')],
             sc_maxAge = Some 2592000, sc_expires = None, sc_path = ''/'',
             sc_httpOnly = True, sc_sameSite = ''lax'', sc_secure = False\<rparr>"
  let ?resp = "\<lparr>status = 302, Location = ''/dashboard'', Set_Cookie = Some ?c\<rparr>"
  let ?h = "[(''RJ_session'', Sealed ''s3cr3t'' [(''userId'', JStr ''u1'')])]"
  have h1: "''u1'' \<noteq> []" by simp
  have h2: "createUserSession sample_storage ''u1'' ''/dashboard'' = Return ?resp"
    by (simp add: createUserSession_def commitSession_def getSession_def cookie_serialize_def
        encodeCookieValue_def redirect_def sample_storage_def Let_def)
  have h3: "Set_Cookie ?resp = Some ?c" by simp
  have h4: "Cookie (sample_request ''/jokes'' (JStr ''u1'')) = Some ?h"
    by (simp add: sample_request_def)
  have h5: "map_of ?h (sc_name ?c) = Some (sc_value ?c)" by simp
  from session_round_trip [OF h1 h2 h3 h4 h5] h1 h2 h4 show ?thesis by simp
qed

text \<open>
  The claim as written fails for the empty \<open>userId\<close>: the session is created and its
  cookie is issued, and the request that carries the cookie gets \<open>null\<close>.
\<close>

theorem session_round_trip_counterexample:
  "createUserSession sample_storage '''' ''/dashboard'' =
     Return \<lparr>status = 302, Location = ''/dashboard'',
             Set_Cookie = Some \<lparr>sc_name = ''RJ_session'',
                                sc_value = Sealed ''s3cr3t'' [(''userId'', JStr '''')],
                                sc_maxAge = Some 2592000, sc_expires = None, sc_path = ''/'',
                                sc_httpOnly = True, sc_sameSite = ''lax'', sc_secure = False\<rparr>\<rparr>
   \<and> getUserId sample_storage
         \<lparr>pathname = ''/dashboard'',
          Cookie = Some [(''RJ_session'', Sealed ''s3cr3t'' [(''userId'', JStr '''')])]\<rparr> =
       Return JNull"
  by (simp add: createUserSession_def commitSession_def getSession_def cookie_serialize_def
        encodeCookieValue_def redirect_def getUserId_def getUserSession_def cookie_parse_def
        decodeCookieValue_def session_get_def sample_storage_def Let_def)

text \<open>
  C6.  For every request, \<open>logout\<close> returns a redirect to \<open>/login\<close> whose \<open>Set-Cookie\<close>
  header blanks the session cookie and sets its \<open>Expires\<close> to the epoch, with the
  \<open>Max-Age\<close> of the cookie's options beside it.  A later request makes \<open>getUserId\<close>
  return \<open>null\<close>, whether it carries that blank cookie or, the user agent having dropped
  the cookie, no session cookie or no \<open>Cookie\<close> header at all.
\<close>

theorem getUserId_after_logout:
  "\<exists>resp c. logout st req = Return resp \<and> status resp = 302 \<and> Location resp = ''/login''
      \<and> Set_Cookie resp = Some c \<and> sc_name c = name (cookie st) \<and> sc_value c = Blank
      \<and> sc_maxAge c = Some (maxAge (cookie st)) \<and> sc_expires c = Some 0
      \<and> (\<forall>req'. (Cookie req' = None
                  \<or> (\<exists>h. Cookie req' = Some h \<and> map_of h (sc_name c) = None)
                  \<or> (\<exists>h. Cookie req' = Some h \<and> map_of h (sc_name c) = Some (sc_value c)))
               \<longrightarrow> getUserId st req' = Return JNull)"
proof -
  let ?c = "destroySession st (getUserSession st req)"
  have n: "sc_name ?c = name (cookie st)" and v: "sc_value ?c = Blank"
    and a: "sc_maxAge ?c = Some (maxAge (cookie st))" and e: "sc_expires ?c = Some 0"
    by (simp_all add: destroySession_def cookie_serialize_def)
  have "getUserId st req' = Return JNull"
    if "Cookie req' = None
        \<or> (\<exists>h. Cookie req' = Some h \<and> map_of h (sc_name ?c) = None)
        \<or> (\<exists>h. Cookie req' = Some h \<and> map_of h (sc_name ?c) = Some (sc_value ?c))" for req'
  proof -
    from that have "getUserSession st req' = []"
      unfolding n v
      by (auto simp: getUserSession_no_cookie getUserSession_cookie_missing
          getUserSession_blank)
    then show ?thesis by (simp add: getUserId_def session_get_def)
  qed
  then show ?thesis
    using n v a e by (simp add: logout_def redirect_def Let_def)
qed

theorem getUserId_after_logout_witness:
  "logout sample_storage (sample_request ''/jokes'' (JStr ''u1'')) =
     Return \<lparr>status = 302, Location = ''/login'',
             Set_Cookie = Some \<lparr>sc_name = ''RJ_session'', sc_value = Blank,
                                sc_maxAge = Some 2592000,
                                sc_expires = Some 0, sc_path = ''/'', sc_httpOnly = True,
                                sc_sameSite = ''lax'', sc_secure = False\<rparr>\<rparr>
   \<and> getUserId sample_storage \<lparr>pathname = ''/jokes'', Cookie = Some [(''RJ_session'', Blank)]\<rparr>
       = Return JNull
   \<and> getUserId sample_storage \<lparr>pathname = ''/jokes'', Cookie = None\<rparr> = Return JNull"
proof -
  let ?req = "sample_request ''/jokes'' (JStr ''u1'')"
  let ?c = "\<lparr>sc_name = ''RJ_session'', sc_value = Blank, sc_maxAge = Some 2592000,
             sc_expires = Some 0, sc_path = ''/'', sc_httpOnly = True,
             sc_sameSite = ''lax'', sc_secure = False\<rparr>"
  have l: "logout sample_storage ?req =
             Return \<lparr>status = 302, Location = ''/login'', Set_Cookie = Some ?c\<rparr>"
    by (simp add: logout_def redirect_def destroySession_def cookie_serialize_def
        sample_storage_def Let_def)
  from getUserId_after_logout [of sample_storage ?req]
  obtain resp c where rc: "logout sample_storage ?req = Return resp" "Set_Cookie resp = Some c"
    and after: "\<forall>req'. (Cookie req' = None
                  \<or> (\<exists>h. Cookie req' = Some h \<and> map_of h (sc_name c) = None)
                  \<or> (\<exists>h. Cookie req' = Some h \<and> map_of h (sc_name c) = Some (sc_value c)))
               \<longrightarrow> getUserId sample_storage req' = Return JNull"
    by blast
  from rc l have c: "c = ?c" by auto
  have "getUserId sample_storage \<lparr>pathname = ''/jokes'', Cookie = Some [(''RJ_session'', Blank)]\<rparr>
          = Return JNull"
    using after [rule_format, of "\<lparr>pathname = ''/jokes'', Cookie = Some [(''RJ_session'', Blank)]\<rparr>"]
    by (simp add: c)
  moreover have "getUserId sample_storage \<lparr>pathname = ''/jokes'', Cookie = None\<rparr> = Return JNull"
    using after [rule_format, of "\<lparr>pathname = ''/jokes'', Cookie = None\<rparr>"] by simp
  ultimately show ?thesis using l by simp
qed

section \<open>The User store across calls\<close>

lemma register_store:
  "snd (register bc salt newId form d) = d \<or>
   snd (register bc salt newId form d) =
     d @ [\<lparr>user_id = newId, user_username = username form,
           user_passwordHash = hash bc (password form) 10 salt\<rparr>]"
  by (simp add: register_def db_user_create_def Let_def)

lemma login_store: "snd (login bc form d) = d"
  by (simp add: login_def db_user_findUnique_username_def Let_def split: option.splits)

lemma getUser_store: "snd (getUser st req d) = d"
  by (simp add: getUser_def db_user_findUnique_id_def
      split: outcome.splits jsval.splits option.splits)

text \<open>
  C8.  Whatever exported function is called, the store after the call is the store before
  it followed by the rows the call inserted: every row that was there is still there,
  unchanged and in place.  Only \<open>register\<close> inserts, and then exactly one row, with the
  generated id, the form's username and the digest of the form's password; \<open>login\<close>,
  \<open>getUserId\<close>, \<open>requiredUserId\<close>, \<open>createUserSession\<close>, \<open>getUser\<close> and \<open>logout\<close>
  leave the store as it was.
\<close>

theorem user_store_frame:
  "\<exists>new. snd (exec bc st c d) = d @ new \<and>
     (case c of
        Register salt newId form \<Rightarrow>
          new = [] \<or> new = [\<lparr>user_id = newId, user_username = username form,
                               user_passwordHash = hash bc (password form) 10 salt\<rparr>]
      | _ \<Rightarrow> new = [])"
proof (cases c)
  case (Register salt newId form)
  then show ?thesis
    using register_store [of bc salt newId form d] by (auto simp: split_beta)
next
  case (Login form)
  then show ?thesis using login_store [of bc form d] by (simp add: split_beta)
next
  case (GetUser req)
  then show ?thesis using getUser_store [of st req d] by (simp add: split_beta)
qed simp_all

theorem user_store_frame_witness:
  "snd (exec sample_bcrypt sample_storage
          (Register ''NaCl'' ''u2'' \<lparr>password = ''pw'', username = ''bob''\<rparr>) [alice]) =
     [alice, \<lparr>user_id = ''u2'', user_username = ''bob'', user_passwordHash = ''NaCl$pw''\<rparr>]
   \<and> snd (exec sample_bcrypt sample_storage
            (Register ''NaCl'' ''u2'' \<lparr>password = ''pw'', username = ''alice''\<rparr>) [alice]) =
       [alice]
   \<and> snd (exec sample_bcrypt sample_storage
            (GetUser (sample_request ''/jokes'' (JStr ''ghost''))) [alice]) = [alice]"
proof -
  let ?bob = "\<lparr>password = ''pw'', username = ''bob''\<rparr>"
  let ?dup = "\<lparr>password = ''pw'', username = ''alice''\<rparr>"
  have l1: "length (snd (exec sample_bcrypt sample_storage (Register ''NaCl'' ''u2'' ?bob)
              [alice])) = 2"
    by (simp add: register_def db_user_create_def Let_def alice_def)
  have l2: "length (snd (exec sample_bcrypt sample_storage (Register ''NaCl'' ''u2'' ?dup)
              [alice])) = 1"
    by (simp add: register_def db_user_create_def Let_def alice_def)
  have h: "hash sample_bcrypt ''pw'' 10 ''NaCl'' = ''NaCl$pw''"
    by (simp add: sample_bcrypt_def)
  from user_store_frame [of sample_bcrypt sample_storage "Register ''NaCl'' ''u2'' ?bob" "[alice]"]
       l1 h
  have r1: "snd (exec sample_bcrypt sample_storage (Register ''NaCl'' ''u2'' ?bob) [alice]) =
     [alice, \<lparr>user_id = ''u2'', user_username = ''bob'', user_passwordHash = ''NaCl$pw''\<rparr>]"
    by auto
  from user_store_frame [of sample_bcrypt sample_storage "Register ''NaCl'' ''u2'' ?dup" "[alice]"]
       l2
  have r2: "snd (exec sample_bcrypt sample_storage (Register ''NaCl'' ''u2'' ?dup) [alice]) =
     [alice]"
    by auto
  from user_store_frame [of sample_bcrypt sample_storage
         "GetUser (sample_request ''/jokes'' (JStr ''ghost''))" "[alice]"]
  have r3: "snd (exec sample_bcrypt sample_storage
            (GetUser (sample_request ''/jokes'' (JStr ''ghost''))) [alice]) = [alice]"
    by auto
  from r1 r2 r3 show ?thesis by simp
qed

section \<open>The password digest stays inside\<close>

lemma register_reply:
  "fst (register bc salt newId form d) = Return v \<Longrightarrow>
     v = JObj [(''id'', JStr newId), (''username'', JStr (username form))]"
  by (auto simp: register_def db_user_create_def Let_def split: if_splits)

lemma login_reply:
  "\<exists>v. fst (login bc form d) = Return v \<and>
     (v = JNull \<or>
      (\<exists>u\<in>set d. v = JObj [(''id'', JStr (user_id u)), (''username'', JStr (username form))]))"
  by (auto simp: login_def db_user_findUnique_username_def Let_def
      split: option.splits dest: find_Some_mem)

lemma getUser_reply:
  assumes "fst (getUser st req d) = Return v"
  shows "v = JNull \<or>
     (\<exists>u\<in>set d. v = JObj [(''id'', JStr (user_id u)), (''username'', JStr (user_username u))])"
proof (cases "getUserId st req = Return JNull")
  case True
  with assms show ?thesis by (simp add: getUser_def)
next
  case False
  with getUserId_cases [of st req]
  obtain uid where g: "getUserId st req = Return (JStr uid)" by blast
  show ?thesis
  proof (cases "find (\<lambda>u. user_id u = uid) d")
    case None
    with assms g show ?thesis by (simp add: getUser_def db_user_findUnique_id_def)
  next
    case (Some u)
    then have "u \<in> set d" by (rule find_Some_mem)
    moreover from assms g Some
    have "v = JObj [(''id'', JStr (user_id u)), (''username'', JStr (user_username u))]"
      by (simp add: getUser_def db_user_findUnique_id_def select_identity)
    ultimately show ?thesis by blast
  qed
qed

lemma register_rehash:
  "fst (register bc salt newId form (rehash f d)) = fst (register bc salt newId form d)"
proof -
  have "find (\<lambda>u. user_username u = username form \<or> user_id u = newId) (rehash f d) =
        map_option (\<lambda>u. u\<lparr>user_passwordHash := f u\<rparr>)
          (find (\<lambda>u. user_username u = username form \<or> user_id u = newId) d)"
    by (rule find_rehash) simp
  then show ?thesis
    by (simp add: register_def db_user_create_def Let_def)
qed

lemma getUser_rehash: "fst (getUser st req (rehash f d)) = fst (getUser st req d)"
proof -
  have "find (\<lambda>u. user_id u = i) (rehash f d) =
        map_option (\<lambda>u. u\<lparr>user_passwordHash := f u\<rparr>) (find (\<lambda>u. user_id u = i) d)" for i
    by (rule find_rehash) simp
  then have "fst (db_user_findUnique_id [''id'', ''username''] i (rehash f d)) =
             fst (db_user_findUnique_id [''id'', ''username''] i d)" for i
    by (simp add: db_user_findUnique_id_def option.map_comp comp_def select_rehash)
  then show ?thesis
    using getUserId_cases [of st req]
    by (auto simp: getUser_def split_beta split: option.splits prod.splits)
qed

text \<open>
  C9.  No exported function returns a stored password digest.  A value returned by
  \<open>register\<close> is the object \<open>{id, username}\<close> of the new row; a value returned by \<open>login\<close>
  or \<open>getUser\<close> is \<open>null\<close> or an object with exactly the fields \<open>id\<close> and \<open>username\<close> of
  a stored row; \<open>getUserId\<close> and \<open>requiredUserId\<close> return \<open>null\<close> or a string read from
  the session.  Moreover, except for \<open>login\<close>, whose answer depends on whether the password
  verifies, the outcome of every call (value, response or thrown value) is the same
  whatever digests the store holds.
\<close>

theorem passwordHash_not_returned:
  "(\<forall>v. fst (exec bc st c d) = Return (Value v) \<longrightarrow>
      (case c of
         Register salt newId form \<Rightarrow>
           v = JObj [(''id'', JStr newId), (''username'', JStr (username form))]
       | Login form \<Rightarrow>
           v = JNull \<or>
           (\<exists>u\<in>set d. v = JObj [(''id'', JStr (user_id u)),
                                  (''username'', JStr (username form))])
       | GetUser req \<Rightarrow>
           v = JNull \<or>
           (\<exists>u\<in>set d. v = JObj [(''id'', JStr (user_id u)),
                                  (''username'', JStr (user_username u))])
       | _ \<Rightarrow> v = JNull \<or> (\<exists>s. v = JStr s)))
   \<and> ((\<forall>form. c \<noteq> Login form) \<longrightarrow>
        fst (exec bc st c (rehash f d)) = fst (exec bc st c d))"
proof (cases c)
  case (Register salt newId form)
  then show ?thesis
    using register_reply [of bc salt newId form d] register_rehash [of bc salt newId form f d]
    by (cases "fst (register bc salt newId form d)") (auto simp: split_beta)
next
  case (Login form)
  then show ?thesis
    using login_reply [of bc form d] by (auto simp: split_beta)
next
  case (GetUserId req)
  then show ?thesis
    using getUserId_cases [of st req] by auto
next
  case (RequiredUserId req arg)
  then show ?thesis
    by (cases "session_get (getUserSession st req) ''userId''")
       (auto simp: requiredUserId_def Let_def)
next
  case (CreateUserSession userId redirectTo)
  then show ?thesis
    by (cases "createUserSession st userId redirectTo") auto
next
  case (GetUser req)
  then show ?thesis
    using getUser_reply [of st req d] getUser_rehash [of st req f d]
    by (cases "fst (getUser st req d)") (auto simp: split_beta)
next
  case (Logout req)
  then show ?thesis by (simp add: logout_def Let_def)
qed

theorem passwordHash_not_returned_witness:
  "fst (exec sample_bcrypt sample_storage (GetUser (sample_request ''/jokes'' (JStr ''u1'')))
          [alice]) =
     Return (Value (JObj [(''id'', JStr ''u1''), (''username'', JStr ''alice'')]))
   \<and> (\<forall>form. GetUser (sample_request ''/jokes'' (JStr ''u1'')) \<noteq> Login form)
   \<and> fst (exec sample_bcrypt sample_storage (GetUser (sample_request ''/jokes'' (JStr ''u1'')))
            (rehash (\<lambda>u. ''other'') [alice])) =
       Return (Value (JObj [(''id'', JStr ''u1''), (''username'', JStr ''alice'')]))"
proof -
  let ?c = "GetUser (sample_request ''/jokes'' (JStr ''u1''))"
  have h1: "\<forall>form. ?c \<noteq> Login form" by simp
  have r1: "fst (exec sample_bcrypt sample_storage ?c [alice]) =
     Return (Value (JObj [(''id'', JStr ''u1''), (''username'', JStr ''alice'')]))"
    by (simp add: getUser_def getUserId_def session_get_def Let_def
        db_user_findUnique_id_def select_identity alice_def)
  from passwordHash_not_returned
         [of sample_bcrypt sample_storage ?c "[alice]" "\<lambda>u. ''other''"] h1
  have "fst (exec sample_bcrypt sample_storage ?c (rehash (\<lambda>u. ''other'') [alice])) =
        fst (exec sample_bcrypt sample_storage ?c [alice])"
    by blast
  with r1
  have r2: "fst (exec sample_bcrypt sample_storage ?c (rehash (\<lambda>u. ''other'') [alice])) =
     Return (Value (JObj [(''id'', JStr ''u1''), (''username'', JStr ''alice'')]))"
    by (rule trans [rotated])
  from r1 h1 r2 show ?thesis by simp
qed

end
